theory Spec2Isabelle
  imports Main
begin

section \<open>Extended order: the sentinels of interval.py\<close>

text \<open>
  A bound of an interval is an instance of a class that implements
  \<^verbatim>\<open>SupportsRichComparison\<close>: one of the two sentinels \<^verbatim>\<open>Smallest()\<close> and
  \<^verbatim>\<open>Largest()\<close>, or a value \<open>Val v\<close> of the consumer's totally ordered domain.
  The sentinels carry no state, and their comparison methods only test
  \<^verbatim>\<open>isinstance\<close>, so one constructor stands for every instance of each class.
\<close>

datatype 'a bound = Smallest | Largest | Val 'a

text \<open>The six comparison methods of class \<^verbatim>\<open>Smallest\<close> (interval.py, lines 85-101).\<close>

definition Smallest_eq :: "'a bound \<Rightarrow> bool" where
  "Smallest_eq other = (other = Smallest)"

definition Smallest_ne :: "'a bound \<Rightarrow> bool" where
  "Smallest_ne other = (other \<noteq> Smallest)"

definition Smallest_lt :: "'a bound \<Rightarrow> bool" where
  "Smallest_lt other = True"

definition Smallest_le :: "'a bound \<Rightarrow> bool" where
  "Smallest_le other = True"

definition Smallest_gt :: "'a bound \<Rightarrow> bool" where
  "Smallest_gt other = False"

definition Smallest_ge :: "'a bound \<Rightarrow> bool" where
  "Smallest_ge other = (other = Smallest)"

text \<open>The six comparison methods of class \<^verbatim>\<open>Largest\<close> (interval.py, lines 178-194).\<close>

definition Largest_eq :: "'a bound \<Rightarrow> bool" where
  "Largest_eq other = (other = Largest)"

definition Largest_ne :: "'a bound \<Rightarrow> bool" where
  "Largest_ne other = (other \<noteq> Largest)"

definition Largest_lt :: "'a bound \<Rightarrow> bool" where
  "Largest_lt other = False"

definition Largest_le :: "'a bound \<Rightarrow> bool" where
  "Largest_le other = (other = Largest)"

definition Largest_gt :: "'a bound \<Rightarrow> bool" where
  "Largest_gt other = True"

definition Largest_ge :: "'a bound \<Rightarrow> bool" where
  "Largest_ge other = True"

text \<open>
  The operators \<^verbatim>\<open>x < y\<close>, \<^verbatim>\<open>x > y\<close>, \<^verbatim>\<open>x == y\<close>, \<^verbatim>\<open>x != y\<close>, \<^verbatim>\<open>x <= y\<close> and
  \<^verbatim>\<open>x >= y\<close> on bounds. Python calls the method of the left operand; a sentinel on
  the left answers by its own method. A domain value on the left compares with a
  domain value by the domain's order; compared with a sentinel it returns
  \<^verbatim>\<open>NotImplemented\<close> (as the built-in types of the docstrings do:
  \<^verbatim>\<open>-264 < negInf\<close>, \<^verbatim>\<open>6234 < infinity\<close>), and Python then calls the reflected method
  of the sentinel on the right.
\<close>

definition py_lt :: "'a::linorder bound \<Rightarrow> 'a bound \<Rightarrow> bool" where
  "py_lt x y =
     (case x of
        Smallest \<Rightarrow> Smallest_lt y
      | Largest \<Rightarrow> Largest_lt y
      | Val a \<Rightarrow>
          (case y of
             Val b \<Rightarrow> a < b
           | Smallest \<Rightarrow> Smallest_gt x
           | Largest \<Rightarrow> Largest_gt x))"

definition py_gt :: "'a::linorder bound \<Rightarrow> 'a bound \<Rightarrow> bool" where
  "py_gt x y =
     (case x of
        Smallest \<Rightarrow> Smallest_gt y
      | Largest \<Rightarrow> Largest_gt y
      | Val a \<Rightarrow>
          (case y of
             Val b \<Rightarrow> b < a
           | Smallest \<Rightarrow> Smallest_lt x
           | Largest \<Rightarrow> Largest_lt x))"

definition py_eq :: "'a::linorder bound \<Rightarrow> 'a bound \<Rightarrow> bool" where
  "py_eq x y =
     (case x of
        Smallest \<Rightarrow> Smallest_eq y
      | Largest \<Rightarrow> Largest_eq y
      | Val a \<Rightarrow>
          (case y of
             Val b \<Rightarrow> a = b
           | Smallest \<Rightarrow> Smallest_eq x
           | Largest \<Rightarrow> Largest_eq x))"

definition py_ne :: "'a::linorder bound \<Rightarrow> 'a bound \<Rightarrow> bool" where
  "py_ne x y =
     (case x of
        Smallest \<Rightarrow> Smallest_ne y
      | Largest \<Rightarrow> Largest_ne y
      | Val a \<Rightarrow>
          (case y of
             Val b \<Rightarrow> a \<noteq> b
           | Smallest \<Rightarrow> Smallest_ne x
           | Largest \<Rightarrow> Largest_ne x))"

definition py_le :: "'a::linorder bound \<Rightarrow> 'a bound \<Rightarrow> bool" where
  "py_le x y =
     (case x of
        Smallest \<Rightarrow> Smallest_le y
      | Largest \<Rightarrow> Largest_le y
      | Val a \<Rightarrow>
          (case y of
             Val b \<Rightarrow> a \<le> b
           | Smallest \<Rightarrow> Smallest_ge x
           | Largest \<Rightarrow> Largest_ge x))"

definition py_ge :: "'a::linorder bound \<Rightarrow> 'a bound \<Rightarrow> bool" where
  "py_ge x y =
     (case x of
        Smallest \<Rightarrow> Smallest_ge y
      | Largest \<Rightarrow> Largest_ge y
      | Val a \<Rightarrow>
          (case y of
             Val b \<Rightarrow> b \<le> a
           | Smallest \<Rightarrow> Smallest_le x
           | Largest \<Rightarrow> Largest_le x))"

section \<open>Interval\<close>

text \<open>
  The exceptions the modelled code raises, by class. \<open>RecursionError\<close> is what Python
  raises when \<^verbatim>\<open>overlaps\<close> or \<^verbatim>\<open>adjacent_to\<close> keep delegating to each other.
\<close>

datatype error = TypeError | ValueError | ArithmeticError | KeyError | RecursionError

text \<open>
  What a caller may pass as a bound or as a discrete value: an instance of a concrete
  class that implements \<^verbatim>\<open>SupportsRichComparison\<close>, or a built-in \<^verbatim>\<open>int\<close> such as the
  literal \<^verbatim>\<open>0\<close> of \<^verbatim>\<open>Interval.none\<close>. The abstract base class has no subclass hook and
  registers no virtual subclass, so \<^verbatim>\<open>isinstance(0, SupportsRichComparison)\<close> is false.
  In the examples below the domain is ordered like the integers: \<open>Comparable (Val 2)\<close>
  is the domain value 2, an instance of a comparable class, and not the built-in int
  \<open>PyInt 2\<close>.
\<close>

datatype 'a pyval = Comparable "'a bound" | PyInt int

record 'a interval =
  lower_bound :: "'a bound"
  lower_closed :: bool
  upper_bound :: "'a bound"
  upper_closed :: bool

text \<open>
  The body of
  \<^verbatim>\<open>Interval.__init__(lower_bound, upper_bound, closed, lower_closed, upper_closed)\<close>
  (lines 294-310). The keyword defaults (\<^verbatim>\<open>-Inf\<close>, \<^verbatim>\<open>Inf\<close>, \<^verbatim>\<open>True\<close>, \<^verbatim>\<open>True\<close>,
  \<^verbatim>\<open>True\<close>) are written out at every call.
\<close>

definition Interval_init ::
  "'a::linorder pyval \<Rightarrow> 'a pyval \<Rightarrow> bool \<Rightarrow> bool \<Rightarrow> bool \<Rightarrow> error + 'a interval" where
  "Interval_init lower upper closed lower_closed_arg upper_closed_arg =
     (case lower of
        PyInt _ \<Rightarrow> Inl TypeError
      | Comparable l \<Rightarrow>
          (case upper of
             PyInt _ \<Rightarrow> Inl TypeError
           | Comparable u \<Rightarrow>
               if py_lt u l then Inl ValueError
               else
                 let lc = (closed \<or> lower_closed_arg);
                     uc = (closed \<or> upper_closed_arg)
                 in if (py_eq l Smallest \<and> lc) \<or> (py_eq u Largest \<and> uc)
                    then Inl ValueError
                    else Inr \<lparr>lower_bound = l, lower_closed = lc,
                              upper_bound = u, upper_closed = uc\<rparr>))"

text \<open>
  The class that a constructor call names. \<^verbatim>\<open>SupportsRichComparison\<close> (lines 7-26)
  declares \<^verbatim>\<open>__eq__\<close>, \<^verbatim>\<open>__ne__\<close>, \<^verbatim>\<open>__lt__\<close>, \<^verbatim>\<open>__le__\<close>, \<^verbatim>\<open>__gt__\<close> and \<^verbatim>\<open>__ge__\<close>
  abstract. \<^verbatim>\<open>Interval\<close> (line 219) derives from it and defines \<^verbatim>\<open>__eq__\<close>, \<^verbatim>\<open>__lt__\<close>
  and \<^verbatim>\<open>__gt__\<close> only, so it is an abstract class itself: a call \<^verbatim>\<open>Interval(...)\<close>
  raises \<^verbatim>\<open>TypeError\<close> when Python allocates the object, before \<^verbatim>\<open>__init__\<close> runs and
  whatever the arguments are. An Interval object is therefore an instance of a concrete
  subclass, one that adds \<^verbatim>\<open>__ne__\<close>, \<^verbatim>\<open>__le__\<close> and \<^verbatim>\<open>__ge__\<close> and inherits everything
  else; calling such a subclass runs the body of \<^verbatim>\<open>__init__\<close>. The record \<open>interval\<close>
  holds the fields of such an instance.
\<close>

datatype interval_class = Interval_class | Concrete_subclass

text \<open>The call \<^verbatim>\<open>cls(lower_bound, upper_bound, closed, lower_closed, upper_closed)\<close>.\<close>

definition Interval_call ::
  "interval_class \<Rightarrow> 'a::linorder pyval \<Rightarrow> 'a pyval \<Rightarrow> bool \<Rightarrow> bool \<Rightarrow> bool
     \<Rightarrow> error + 'a interval" where
  "Interval_call cls lower upper closed lower_closed_arg upper_closed_arg =
     (case cls of
        Interval_class \<Rightarrow> Inl TypeError
      | Concrete_subclass \<Rightarrow>
          Interval_init lower upper closed lower_closed_arg upper_closed_arg)"

text \<open>\<^verbatim>\<open>Interval.__nonzero__\<close> (lines 406-418).\<close>

definition nonzero :: "'a::linorder interval \<Rightarrow> bool" where
  "nonzero r =
     (py_ne (lower_bound r) (upper_bound r) \<or> (upper_closed r \<and> lower_closed r))"

text \<open>\<^verbatim>\<open>Interval.__eq__\<close> (lines 446-458), for another Interval.\<close>

definition Interval_eq :: "'a::linorder interval \<Rightarrow> 'a interval \<Rightarrow> bool" where
  "Interval_eq self other =
     (py_eq (upper_bound self) (upper_bound other) \<and>
      py_eq (lower_bound self) (lower_bound other) \<and>
      upper_closed self = upper_closed other \<and>
      lower_closed self = lower_closed other)"

text \<open>
  The class methods (lines 517-598). Each takes the class it is called on as \<^verbatim>\<open>cls\<close>
  and returns \<^verbatim>\<open>cls(...)\<close>; \<^verbatim>\<open>Interval.all()\<close> is \<open>Interval_all Interval_class\<close>.
\<close>

definition Interval_none :: "interval_class \<Rightarrow> error + 'a::linorder interval" where
  "Interval_none cls = Interval_call cls (PyInt 0) (PyInt 0) False True True"

definition Interval_all :: "interval_class \<Rightarrow> error + 'a::linorder interval" where
  "Interval_all cls =
     Interval_call cls (Comparable Smallest) (Comparable Largest) True True True"

definition Interval_between ::
  "interval_class \<Rightarrow> 'a::linorder pyval \<Rightarrow> 'a pyval \<Rightarrow> bool \<Rightarrow> error + 'a interval" where
  "Interval_between cls a b closed = Interval_call cls a b closed True True"

definition Interval_equal_to :: "interval_class \<Rightarrow> 'a::linorder pyval \<Rightarrow> error + 'a interval" where
  "Interval_equal_to cls a = Interval_call cls a a True True True"

definition Interval_less_than :: "interval_class \<Rightarrow> 'a::linorder pyval \<Rightarrow> error + 'a interval" where
  "Interval_less_than cls a = Interval_call cls (Comparable Smallest) a True True False"

definition Interval_less_than_or_equal_to ::
  "interval_class \<Rightarrow> 'a::linorder pyval \<Rightarrow> error + 'a interval" where
  "Interval_less_than_or_equal_to cls a =
     Interval_call cls (Comparable Smallest) a True True True"

definition Interval_greater_than :: "interval_class \<Rightarrow> 'a::linorder pyval \<Rightarrow> error + 'a interval" where
  "Interval_greater_than cls a = Interval_call cls a (Comparable Largest) True False True"

definition Interval_greater_than_or_equal_to ::
  "interval_class \<Rightarrow> 'a::linorder pyval \<Rightarrow> error + 'a interval" where
  "Interval_greater_than_or_equal_to cls a =
     Interval_call cls a (Comparable Largest) True True True"

text \<open>\<^verbatim>\<open>Interval.comes_before\<close> (lines 600-641); \<^verbatim>\<open>__lt__\<close> is the same function.\<close>

definition comes_before :: "'a::linorder interval \<Rightarrow> 'a interval \<Rightarrow> bool" where
  "comes_before self other =
     (if Interval_eq self other then False
      else if py_lt (lower_bound self) (lower_bound other) then True
      else if py_gt (lower_bound self) (lower_bound other) then False
      else if lower_closed self = lower_closed other then
        (if py_lt (upper_bound self) (upper_bound other) then True
         else if py_gt (upper_bound self) (upper_bound other)
                 \<or> upper_closed self = upper_closed other
                 \<or> upper_closed self then False
         else True)
      else if lower_closed self then True
      else False)"

text \<open>
  \<^verbatim>\<open>Interval.overlaps\<close> (lines 774-827) and \<^verbatim>\<open>Interval.adjacent_to\<close> (lines
  829-883) call themselves with the operands exchanged. The first argument counts the
  stack frames that are left: Python raises \<^verbatim>\<open>RecursionError\<close> when they run out.
\<close>

fun overlaps_depth :: "nat \<Rightarrow> 'a::linorder interval \<Rightarrow> 'a interval \<Rightarrow> error + bool" where
  "overlaps_depth 0 self other = Inl RecursionError"
| "overlaps_depth (Suc n) self other =
     (if Interval_eq self other then Inr True
      else if comes_before other self then overlaps_depth n other self
      else if py_lt (lower_bound other) (upper_bound self) then Inr True
      else if py_eq (lower_bound other) (upper_bound self)
        then Inr (lower_closed other \<and> upper_closed self)
      else Inr False)"

fun adjacent_to_depth :: "nat \<Rightarrow> 'a::linorder interval \<Rightarrow> 'a interval \<Rightarrow> error + bool" where
  "adjacent_to_depth 0 self other = Inl RecursionError"
| "adjacent_to_depth (Suc n) self other =
     (if comes_before self other then
        (if py_eq (upper_bound self) (lower_bound other)
         then Inr (upper_closed self \<noteq> lower_closed other)
         else Inr False)
      else if Interval_eq self other then Inr False
      else adjacent_to_depth n other self)"

text \<open>\<^verbatim>\<open>sys.getrecursionlimit()\<close> of CPython; any depth of at least two gives the same results.\<close>

definition recursion_limit :: nat where
  "recursion_limit = 1000"

definition overlaps :: "'a::linorder interval \<Rightarrow> 'a interval \<Rightarrow> error + bool" where
  "overlaps self other = overlaps_depth recursion_limit self other"

definition adjacent_to :: "'a::linorder interval \<Rightarrow> 'a interval \<Rightarrow> error + bool" where
  "adjacent_to self other = adjacent_to_depth recursion_limit self other"

text \<open>The test \<^verbatim>\<open>i.overlaps(r) or i.adjacent_to(r)\<close>: the second call is made only when the first returns false.\<close>

definition overlaps_or_adjacent :: "'a::linorder interval \<Rightarrow> 'a interval \<Rightarrow> error + bool" where
  "overlaps_or_adjacent self other =
     (case overlaps self other of
        Inl e \<Rightarrow> Inl e
      | Inr True \<Rightarrow> Inr True
      | Inr False \<Rightarrow> adjacent_to self other)"

text \<open>
  \<^verbatim>\<open>Interval.join\<close> (lines 643-714). The result is built by the call
  \<^verbatim>\<open>Interval(lbound, ubound, upper_closed=uinc, lower_closed=linc)\<close> of line 711, which
  names the class \<^verbatim>\<open>Interval\<close> and leaves \<^verbatim>\<open>closed\<close> at its default.
\<close>

definition join :: "'a::linorder interval \<Rightarrow> 'a interval \<Rightarrow> error + 'a interval" where
  "join self other =
     (case overlaps_or_adjacent self other of
        Inl e \<Rightarrow> Inl e
      | Inr False \<Rightarrow> Inl ArithmeticError
      | Inr True \<Rightarrow>
          let (lbound, linc) =
                (if py_lt (lower_bound self) (lower_bound other)
                   then (lower_bound self, lower_closed self)
                 else if py_eq (lower_bound self) (lower_bound other)
                   then (lower_bound self, max (lower_closed self) (lower_closed other))
                 else (lower_bound other, lower_closed other));
              (ubound, uinc) =
                (if py_gt (upper_bound self) (upper_bound other)
                   then (upper_bound self, upper_closed self)
                 else if py_eq (upper_bound self) (upper_bound other)
                   then (upper_bound self, max (upper_closed self) (upper_closed other))
                 else (upper_bound other, upper_closed other))
          in Interval_call Interval_class (Comparable lbound) (Comparable ubound)
               True linc uinc)"

section \<open>IntervalSet\<close>

text \<open>
  No method of the two modules assigns to a field of an existing Interval, so Intervals
  are values. An IntervalSet is an object with one attribute, \<^verbatim>\<open>intervals\<close>, that its
  methods reassign: the heap maps the address of every IntervalSet to the list its
  attribute holds. The methods modelled here never change a list in place once it is
  stored (\<^verbatim>\<open>_add\<close> sorts the new list before any other object can reach it), so the
  heap holds the lists by value. A new object takes the next free address; a reference
  is an address below the length of the heap.
\<close>

type_synonym 'a heap = "'a interval list list"

type_synonym ref = nat

text \<open>An element handed to the set: an Interval, or anything else (a discrete value).\<close>

datatype 'a item = Iv "'a interval" | Disc "'a pyval"

text \<open>
  A method call returns its result or the exception it raised, and the heap as the call
  left it. \<open>and_then\<close> runs the next statement on the result, or lets the exception pass.
\<close>

definition and_then ::
  "(error + 'r) \<times> 'h \<Rightarrow> ('r \<Rightarrow> 'h \<Rightarrow> (error + 's) \<times> 'h) \<Rightarrow> (error + 's) \<times> 'h" where
  "and_then m f = (case m of (Inl e, h) \<Rightarrow> (Inl e, h) | (Inr r, h) \<Rightarrow> f r h)"

text \<open>
  \<^verbatim>\<open>Interval.__contains__\<close> (lines 716-772): \<open>inside self obj\<close> is the branch for an
  Interval; anything else is wrapped by \<^verbatim>\<open>Interval.equal_to(obj)\<close> first, a call on
  the class \<^verbatim>\<open>Interval\<close>.
\<close>

definition inside :: "'a::linorder interval \<Rightarrow> 'a interval \<Rightarrow> bool" where
  "inside self obj =
     (let insideLower =
            (if py_lt (lower_bound obj) (lower_bound self) then False
             else if py_eq (lower_bound obj) (lower_bound self)
               then lower_closed obj \<le> lower_closed self
             else True);
          insideUpper =
            (if py_gt (upper_bound obj) (upper_bound self) then False
             else if py_eq (upper_bound obj) (upper_bound self)
               then upper_closed obj \<le> upper_closed self
             else True)
      in insideLower \<and> insideUpper)"

definition Interval_contains :: "'a::linorder interval \<Rightarrow> 'a item \<Rightarrow> error + bool" where
  "Interval_contains self obj =
     (case obj of
        Iv x \<Rightarrow> Inr (inside self x)
      | Disc v \<Rightarrow>
          (case Interval_equal_to Interval_class v of
             Inl e \<Rightarrow> Inl e
           | Inr x \<Rightarrow> Inr (inside self x)))"

text \<open>
  The truth value that \<^verbatim>\<open>if r:\<close> reads off an Interval. Python 3 asks \<^verbatim>\<open>__bool__\<close>,
  then \<^verbatim>\<open>__len__\<close>, and takes an object that defines neither as true. Interval defines
  neither: its emptiness test is the method \<^verbatim>\<open>__nonzero__\<close>, a name Python 3 never
  calls. So the guard of \<^verbatim>\<open>_add\<close> lets every Interval through.
\<close>

definition truth_value :: "'a::linorder interval \<Rightarrow> bool" where
  "truth_value r = True"

text \<open>
  \<^verbatim>\<open>list.sort()\<close> on a list of Intervals compares with \<^verbatim>\<open>__lt__\<close>, which is
  \<open>comes_before\<close>. It is modelled as a stable insertion sort; every comparison sort
  returns the same list when \<open>comes_before\<close> is a strict total order on the elements.
\<close>

fun insort_cb :: "'a::linorder interval \<Rightarrow> 'a interval list \<Rightarrow> 'a interval list" where
  "insort_cb x [] = [x]"
| "insort_cb x (y # ys) = (if comes_before x y then x # y # ys else y # insort_cb x ys)"

definition list_sort :: "'a::linorder interval list \<Rightarrow> 'a interval list" where
  "list_sort xs = foldl (\<lambda>acc x. insort_cb x acc) [] xs"

text \<open>
  \<^verbatim>\<open>BaseIntervalSet._add\<close> (lines 1033-1051). \<open>merge_loop r newIntervals is\<close> is the
  \<^verbatim>\<open>for\<close> loop over the stored intervals that are still to be visited.
\<close>

fun merge_loop ::
  "'a::linorder interval \<Rightarrow> 'a interval list \<Rightarrow> 'a interval list \<Rightarrow>
     error + ('a interval \<times> 'a interval list)" where
  "merge_loop r newIntervals [] = Inr (r, newIntervals)"
| "merge_loop r newIntervals (i # is) =
     (case overlaps_or_adjacent i r of
        Inl e \<Rightarrow> Inl e
      | Inr True \<Rightarrow>
          (case join r i of
             Inl e \<Rightarrow> Inl e
           | Inr r' \<Rightarrow> merge_loop r' newIntervals is)
      | Inr False \<Rightarrow> merge_loop r (newIntervals @ [i]) is)"

definition IntervalSet_add :: "'a::linorder heap \<Rightarrow> ref \<Rightarrow> 'a item \<Rightarrow> (error + unit) \<times> 'a heap" where
  "IntervalSet_add h self obj =
     (case (case obj of Iv x \<Rightarrow> Inr x | Disc v \<Rightarrow> Interval_equal_to Interval_class v) of
        Inl e \<Rightarrow> (Inl e, h)
      | Inr r \<Rightarrow>
          if truth_value r then
            (case merge_loop r [] (h ! self) of
               Inl e \<Rightarrow> (Inl e, h)
             | Inr (r', newIntervals) \<Rightarrow>
                 (Inr (), h[self := list_sort (newIntervals @ [r'])]))
          else (Inr (), h))"

text \<open>
  \<^verbatim>\<open>BaseIntervalSet.__init__\<close> (lines 58-94), together with the allocation of the
  object: \<open>add_all\<close> is the loop \<^verbatim>\<open>for i in items: self._add(i)\<close>.
\<close>

fun add_all :: "'a::linorder heap \<Rightarrow> ref \<Rightarrow> 'a item list \<Rightarrow> (error + unit) \<times> 'a heap" where
  "add_all h self [] = (Inr (), h)"
| "add_all h self (x # xs) = and_then (IntervalSet_add h self x) (\<lambda>_ h'. add_all h' self xs)"

definition IntervalSet_init :: "'a::linorder heap \<Rightarrow> 'a item list \<Rightarrow> (error + ref) \<times> 'a heap" where
  "IntervalSet_init h items =
     (let self = length h
      in and_then (add_all (h @ [[]]) self items) (\<lambda>_ h'. (Inr self, h')))"

text \<open>\<^verbatim>\<open>BaseIntervalSet.empty\<close> (lines 1149-1156).\<close>

definition IntervalSet_empty :: "'a::linorder heap \<Rightarrow> (error + ref) \<times> 'a heap" where
  "IntervalSet_empty h = IntervalSet_init h []"

text \<open>\<^verbatim>\<open>BaseIntervalSet.__contains__\<close> (lines 359-389): the loop stops at the first interval that contains \<open>obj\<close>.\<close>

fun contains_loop :: "'a::linorder interval list \<Rightarrow> 'a item \<Rightarrow> error + bool" where
  "contains_loop [] obj = Inr False"
| "contains_loop (r # rs) obj =
     (case Interval_contains r obj of
        Inl e \<Rightarrow> Inl e
      | Inr True \<Rightarrow> Inr True
      | Inr False \<Rightarrow> contains_loop rs obj)"

definition IntervalSet_contains :: "'a::linorder heap \<Rightarrow> ref \<Rightarrow> 'a item \<Rightarrow> error + bool" where
  "IntervalSet_contains h self obj = contains_loop (h ! self) obj"

text \<open>\<^verbatim>\<open>BaseIntervalSet.__le__\<close> (lines 890-938), \<^verbatim>\<open>issubset\<close> (lines 281-318) and \<^verbatim>\<open>__eq__\<close> (lines 771-810), for a BaseIntervalSet operand.\<close>

fun le_loop :: "'a::linorder heap \<Rightarrow> 'a interval list \<Rightarrow> ref \<Rightarrow> error + bool" where
  "le_loop h [] other = Inr True"
| "le_loop h (i # is) other =
     (case IntervalSet_contains h other (Iv i) of
        Inl e \<Rightarrow> Inl e
      | Inr False \<Rightarrow> Inr False
      | Inr True \<Rightarrow> le_loop h is other)"

definition IntervalSet_le :: "'a::linorder heap \<Rightarrow> ref \<Rightarrow> ref \<Rightarrow> error + bool" where
  "IntervalSet_le h self other = le_loop h (h ! self) other"

definition IntervalSet_issubset :: "'a::linorder heap \<Rightarrow> ref \<Rightarrow> ref \<Rightarrow> error + bool" where
  "IntervalSet_issubset h self other = IntervalSet_le h self other"

definition IntervalSet_eq :: "'a::linorder heap \<Rightarrow> ref \<Rightarrow> ref \<Rightarrow> error + bool" where
  "IntervalSet_eq h self other =
     (case IntervalSet_issubset h self other of
        Inl e \<Rightarrow> Inl e
      | Inr False \<Rightarrow> Inr False
      | Inr True \<Rightarrow> IntervalSet_issubset h other self)"

text \<open>\<^verbatim>\<open>BaseIntervalSet.__or__\<close> (lines 604-637).\<close>

definition IntervalSet_or :: "'a::linorder heap \<Rightarrow> ref \<Rightarrow> ref \<Rightarrow> (error + ref) \<times> 'a heap" where
  "IntervalSet_or h self other =
     and_then (IntervalSet_init h (map Iv (h ! self))) (\<lambda>union h1.
     and_then (add_all h1 union (map Iv (h1 ! other))) (\<lambda>_ h2.
     IntervalSet_init h2 (map Iv (h2 ! union))))"

text \<open>
  \<^verbatim>\<open>result.add(Interval(l, u, lower_closed=lc, upper_closed=uc))\<close>, the statement that
  \<^verbatim>\<open>__and__\<close> and \<^verbatim>\<open>__sub__\<close> use for a piece they cut: the call on the class
  \<^verbatim>\<open>Interval\<close> comes first, with \<^verbatim>\<open>closed\<close> at its default.
\<close>

definition add_piece ::
  "'a::linorder heap \<Rightarrow> ref \<Rightarrow> 'a bound \<Rightarrow> 'a bound \<Rightarrow> bool \<Rightarrow> bool \<Rightarrow> (error + unit) \<times> 'a heap" where
  "add_piece h target l u lc uc =
     (case Interval_call Interval_class (Comparable l) (Comparable u) True lc uc of
        Inl e \<Rightarrow> (Inl e, h)
      | Inr x \<Rightarrow> IntervalSet_add h target (Iv x))"

text \<open>\<^verbatim>\<open>BaseIntervalSet.__and__\<close> (lines 521-570): the body of the two loops, the loops, the method.\<close>

definition and_body ::
  "'a::linorder heap \<Rightarrow> ref \<Rightarrow> 'a interval \<Rightarrow> 'a interval \<Rightarrow> (error + unit) \<times> 'a heap" where
  "and_body h result i j =
     (case overlaps i j of
        Inl e \<Rightarrow> (Inl e, h)
      | Inr False \<Rightarrow> (Inr (), h)
      | Inr True \<Rightarrow>
          if inside j i then IntervalSet_add h result (Iv i)
          else if inside i j then IntervalSet_add h result (Iv j)
          else if comes_before j i then
            add_piece h result (lower_bound i) (upper_bound j) (lower_closed i) (upper_closed j)
          else
            add_piece h result (lower_bound j) (upper_bound i) (lower_closed j) (upper_closed i))"

fun and_inner ::
  "'a::linorder heap \<Rightarrow> ref \<Rightarrow> 'a interval list \<Rightarrow> 'a interval \<Rightarrow> (error + unit) \<times> 'a heap" where
  "and_inner h result [] j = (Inr (), h)"
| "and_inner h result (i # is) j =
     and_then (and_body h result i j) (\<lambda>_ h'. and_inner h' result is j)"

fun and_outer ::
  "'a::linorder heap \<Rightarrow> ref \<Rightarrow> ref \<Rightarrow> 'a interval list \<Rightarrow> (error + unit) \<times> 'a heap" where
  "and_outer h result self [] = (Inr (), h)"
| "and_outer h result self (j # js) =
     and_then (and_inner h result (h ! self) j) (\<lambda>_ h'. and_outer h' result self js)"

definition IntervalSet_and :: "'a::linorder heap \<Rightarrow> ref \<Rightarrow> ref \<Rightarrow> (error + ref) \<times> 'a heap" where
  "IntervalSet_and h self other =
     and_then (IntervalSet_init h []) (\<lambda>result h1.
     and_then (and_outer h1 result self (h1 ! other)) (\<lambda>_ h2.
     IntervalSet_init h2 (map Iv (h2 ! result))))"

text \<open>
  \<^verbatim>\<open>BaseIntervalSet.__sub__\<close> (lines 415-481). The tests \<^verbatim>\<open>j.lower_bound != None\<close> and
  \<^verbatim>\<open>j.upper_bound != None\<close> are true of every bound: the sentinels answer
  \<^verbatim>\<open>not isinstance(None, ...)\<close>, and a domain value is not \<^verbatim>\<open>None\<close>.
\<close>

definition ne_None :: "'a bound \<Rightarrow> bool" where
  "ne_None b = True"

definition sub_body ::
  "'a::linorder heap \<Rightarrow> ref \<Rightarrow> 'a interval \<Rightarrow> 'a interval \<Rightarrow> (error + unit) \<times> 'a heap" where
  "sub_body h temp i j =
     (case overlaps i j of
        Inl e \<Rightarrow> (Inl e, h)
      | Inr True \<Rightarrow>
          if inside j i then (Inr (), h)
          else if inside i j then
            and_then (if ne_None (lower_bound j)
                 then add_piece h temp (lower_bound i) (lower_bound j)
                        (lower_closed i) (\<not> lower_closed j)
                 else (Inr (), h)) (\<lambda>_ h'.
            if ne_None (upper_bound j)
            then add_piece h' temp (upper_bound j) (upper_bound i)
                   (\<not> upper_closed j) (upper_closed i)
            else (Inr (), h'))
          else if comes_before j i then
            add_piece h temp (upper_bound j) (upper_bound i) (\<not> upper_closed j) (upper_closed i)
          else
            add_piece h temp (lower_bound i) (lower_bound j) (lower_closed i) (\<not> lower_closed j)
      | Inr False \<Rightarrow> IntervalSet_add h temp (Iv i))"

fun sub_inner ::
  "'a::linorder heap \<Rightarrow> ref \<Rightarrow> 'a interval list \<Rightarrow> 'a interval \<Rightarrow> (error + unit) \<times> 'a heap" where
  "sub_inner h temp [] j = (Inr (), h)"
| "sub_inner h temp (i # is) j =
     and_then (sub_body h temp i j) (\<lambda>_ h'. sub_inner h' temp is j)"

fun sub_outer :: "'a::linorder heap \<Rightarrow> ref \<Rightarrow> 'a interval list \<Rightarrow> (error + ref) \<times> 'a heap" where
  "sub_outer h result [] = (Inr result, h)"
| "sub_outer h result (j # js) =
     and_then (IntervalSet_init h []) (\<lambda>temp h1.
     and_then (sub_inner h1 temp (h1 ! result) j) (\<lambda>_ h2.
     sub_outer h2 temp js))"

definition IntervalSet_sub :: "'a::linorder heap \<Rightarrow> ref \<Rightarrow> ref \<Rightarrow> (error + ref) \<times> 'a heap" where
  "IntervalSet_sub h self other =
     and_then (IntervalSet_init h (map Iv (h ! self))) (\<lambda>result h1.
     and_then (sub_outer h1 result (h1 ! other)) (\<lambda>result' h2.
     IntervalSet_init h2 (map Iv (h2 ! result'))))"

text \<open>\<^verbatim>\<open>BaseIntervalSet.__xor__\<close> (lines 674-701).\<close>

definition IntervalSet_xor :: "'a::linorder heap \<Rightarrow> ref \<Rightarrow> ref \<Rightarrow> (error + ref) \<times> 'a heap" where
  "IntervalSet_xor h self other =
     and_then (IntervalSet_or h self other) (\<lambda>u h1.
     and_then (IntervalSet_and h1 self other) (\<lambda>n h2.
     IntervalSet_sub h2 u n))"

text \<open>\<^verbatim>\<open>IntervalSet.discard\<close> (lines 1270-1288) and \<^verbatim>\<open>IntervalSet.remove\<close> (lines 1246-1268).\<close>

definition IntervalSet_discard :: "'a::linorder heap \<Rightarrow> ref \<Rightarrow> 'a item \<Rightarrow> (error + unit) \<times> 'a heap" where
  "IntervalSet_discard h self obj =
     and_then (IntervalSet_init h [obj]) (\<lambda>operand h1.
     and_then (IntervalSet_sub h1 self operand) (\<lambda>diff h2.
     (Inr (), h2[self := h2 ! diff])))"

definition IntervalSet_remove :: "'a::linorder heap \<Rightarrow> ref \<Rightarrow> 'a item \<Rightarrow> (error + unit) \<times> 'a heap" where
  "IntervalSet_remove h self obj =
     (case IntervalSet_contains h self obj of
        Inl e \<Rightarrow> (Inl e, h)
      | Inr True \<Rightarrow> IntervalSet_discard h self obj
      | Inr False \<Rightarrow> (Inl KeyError, h))"

text \<open>
  \<open>frame n h h'\<close>: the heap \<open>h'\<close> extends \<open>h\<close> and agrees with it on every address
  below \<open>n\<close>. It is the invariant of the proof that the set operations write to the
  objects they create only.
\<close>

definition frame :: "nat \<Rightarrow> 'a heap \<Rightarrow> 'a heap \<Rightarrow> bool" where
  "frame n h h' = (n \<le> length h \<and> length h \<le> length h' \<and> take n h' = take n h)"

section \<open>Properties of the extended order\<close>

lemma py_eq_iff: "py_eq x y \<longleftrightarrow> x = y"
  by (auto simp: py_eq_def Smallest_eq_def Largest_eq_def split: bound.splits)

lemma py_ne_iff: "py_ne x y \<longleftrightarrow> x \<noteq> y"
  by (auto simp: py_ne_def Smallest_ne_def Largest_ne_def split: bound.splits)

lemma Interval_eq_iff: "Interval_eq a b \<longleftrightarrow> a = b"
  by (auto simp: Interval_eq_def py_eq_iff)

lemma py_lt_simps:
  "py_lt Smallest y = True" "py_lt Largest y = False"
  "py_lt (Val a) (Val b) = (a < b)" "py_lt (Val a) Smallest = False" "py_lt (Val a) Largest = True"
  by (simp_all add: py_lt_def Smallest_lt_def Largest_lt_def Smallest_gt_def Largest_gt_def)

lemma py_gt_simps:
  "py_gt Smallest y = False" "py_gt Largest y = True"
  "py_gt (Val a) (Val b) = (b < a)" "py_gt (Val a) Smallest = True" "py_gt (Val a) Largest = False"
  by (simp_all add: py_gt_def Smallest_lt_def Largest_lt_def Smallest_gt_def Largest_gt_def)

text \<open>What the sentinels get right: equality, and the order against domain values.\<close>

lemma sentinel_order_facts:
  "py_eq (Smallest :: 'a::linorder bound) Smallest"
  "py_eq (Largest :: 'a::linorder bound) Largest"
  "py_lt Smallest (Val v)" "py_lt (Val v) Largest"
  "py_gt (Val v) Smallest" "py_gt Largest (Val v)"
  "\<not> py_eq Smallest (Val v)" "\<not> py_eq (Val v) Smallest"
  "\<not> py_eq Largest (Val v)" "\<not> py_eq (Val v) Largest"
  by (simp_all add: py_eq_iff py_lt_simps py_gt_simps)

text \<open>
  C8. The claim asks for a total order on the sentinels that agrees with their equality,
  so that no sentinel is strictly less or strictly greater than itself. The code
  answers otherwise: \<^verbatim>\<open>Smallest.__lt__\<close> returns \<^verbatim>\<open>True\<close> for every operand, another
  \<^verbatim>\<open>Smallest\<close> included, and \<^verbatim>\<open>Largest.__gt__\<close> does the same, although the class
  docstrings promise \<^verbatim>\<open>negInf < negInf\<close> and \<^verbatim>\<open>infinity > infinity\<close> to be false.
\<close>

theorem sentinel_precedes_itself:
  "py_lt (Smallest :: 'a::linorder bound) Smallest \<and> py_gt (Largest :: 'a bound) Largest"
  by (simp add: py_lt_simps py_gt_simps)

section \<open>Properties of Interval\<close>

subsection \<open>The mutual delegation of overlaps and adjacent_to\<close>

lemma overlaps_depth_loop:
  "a \<noteq> b \<Longrightarrow> comes_before a b \<Longrightarrow> comes_before b a \<Longrightarrow> overlaps_depth n a b = Inl RecursionError"
  by (induction n arbitrary: a b) (auto simp: Interval_eq_iff)

lemma recursion_limit_Suc: "recursion_limit = Suc (Suc 998)"
  by (simp add: recursion_limit_def)

lemma overlaps_depth_two:
  "overlaps_depth (Suc (Suc n)) self other =
     (if self = other then Inr True
      else if comes_before other self then
        (if comes_before self other then Inl RecursionError
         else if py_lt (lower_bound self) (upper_bound other) then Inr True
         else if lower_bound self = upper_bound other
           then Inr (lower_closed self \<and> upper_closed other)
         else Inr False)
      else if py_lt (lower_bound other) (upper_bound self) then Inr True
      else if lower_bound other = upper_bound self
        then Inr (lower_closed other \<and> upper_closed self)
      else Inr False)"
  by (cases n) (auto simp: Interval_eq_iff py_eq_iff overlaps_depth_loop)

lemma overlaps_unfold:
  "overlaps self other =
     (if self = other then Inr True
      else if comes_before other self then
        (if comes_before self other then Inl RecursionError
         else if py_lt (lower_bound self) (upper_bound other) then Inr True
         else if lower_bound self = upper_bound other
           then Inr (lower_closed self \<and> upper_closed other)
         else Inr False)
      else if py_lt (lower_bound other) (upper_bound self) then Inr True
      else if lower_bound other = upper_bound self
        then Inr (lower_closed other \<and> upper_closed self)
      else Inr False)"
  unfolding overlaps_def recursion_limit_Suc by (rule overlaps_depth_two)

lemma adjacent_to_depth_loop:
  "a \<noteq> b \<Longrightarrow> \<not> comes_before a b \<Longrightarrow> \<not> comes_before b a \<Longrightarrow> adjacent_to_depth n a b = Inl RecursionError"
  by (induction n arbitrary: a b) (auto simp: Interval_eq_iff)

lemma adjacent_to_depth_two:
  "adjacent_to_depth (Suc (Suc n)) self other =
     (if comes_before self other then
        Inr (upper_bound self = lower_bound other \<and> upper_closed self \<noteq> lower_closed other)
      else if self = other then Inr False
      else if comes_before other self then
        Inr (upper_bound other = lower_bound self \<and> upper_closed other \<noteq> lower_closed self)
      else Inl RecursionError)"
  by (cases n) (auto simp: Interval_eq_iff py_eq_iff adjacent_to_depth_loop)

lemma adjacent_to_unfold:
  "adjacent_to self other =
     (if comes_before self other then
        Inr (upper_bound self = lower_bound other \<and> upper_closed self \<noteq> lower_closed other)
      else if self = other then Inr False
      else if comes_before other self then
        Inr (upper_bound other = lower_bound self \<and> upper_closed other \<noteq> lower_closed self)
      else Inl RecursionError)"
  unfolding adjacent_to_def recursion_limit_Suc by (rule adjacent_to_depth_two)

subsection \<open>Construction\<close>

lemma Interval_call_abstract [simp]:
  "Interval_call Interval_class lower upper closed lc uc = Inl TypeError"
  by (simp add: Interval_call_def)

lemma Interval_call_concrete [simp]:
  "Interval_call Concrete_subclass lower upper closed lc uc = Interval_init lower upper closed lc uc"
  by (simp add: Interval_call_def)

lemma Interval_equal_to_abstract: "Interval_equal_to Interval_class v = Inl TypeError"
  by (simp add: Interval_equal_to_def)

lemma Interval_init_reversed:
  "py_lt u l \<Longrightarrow> Interval_init (Comparable l) (Comparable u) closed lc uc = Inl ValueError"
  by (simp add: Interval_init_def)

text \<open>
  C1. The claim is that \<^verbatim>\<open>Interval.all()\<close>, \<^verbatim>\<open>Interval.less_than(v)\<close>,
  \<^verbatim>\<open>Interval.less_than_or_equal_to(v)\<close>, \<^verbatim>\<open>Interval.greater_than(v)\<close> and
  \<^verbatim>\<open>Interval.greater_than_or_equal_to(v)\<close> each return their unbounded interval. In the
  code every one of them raises \<^verbatim>\<open>TypeError\<close>, for every \<open>v\<close>: each is \<^verbatim>\<open>cls(...)\<close> with
  \<^verbatim>\<open>cls = Interval\<close>, an abstract class (the first five conjuncts). Called on a concrete
  subclass they raise as well (the other conjuncts): they leave \<^verbatim>\<open>closed\<close> at its
  default \<^verbatim>\<open>True\<close>, \<^verbatim>\<open>__init__\<close> computes \<^verbatim>\<open>closed or lower_closed\<close> and
  \<^verbatim>\<open>closed or upper_closed\<close>, so the unbounded end is marked closed and \<^verbatim>\<open>__init__\<close>
  raises \<^verbatim>\<open>ValueError\<close>, or \<^verbatim>\<open>TypeError\<close> when \<open>v\<close> is a built-in int.
\<close>

theorem unbounded_constructors_raise:
  "(Interval_all Interval_class :: error + 'a::linorder interval) = Inl TypeError
   \<and> Interval_less_than Interval_class (v :: 'a pyval) = Inl TypeError
   \<and> Interval_less_than_or_equal_to Interval_class v = Inl TypeError
   \<and> Interval_greater_than Interval_class v = Inl TypeError
   \<and> Interval_greater_than_or_equal_to Interval_class v = Inl TypeError
   \<and> (Interval_all Concrete_subclass :: error + 'a interval) = Inl ValueError
   \<and> Interval_less_than Concrete_subclass (Comparable (b :: 'a bound)) = Inl ValueError
   \<and> Interval_less_than_or_equal_to Concrete_subclass (Comparable b) = Inl ValueError
   \<and> Interval_greater_than Concrete_subclass (Comparable b) = Inl ValueError
   \<and> Interval_greater_than_or_equal_to Concrete_subclass (Comparable b) = Inl ValueError
   \<and> Interval_less_than Concrete_subclass (PyInt k :: 'a pyval) = Inl TypeError
   \<and> Interval_less_than_or_equal_to Concrete_subclass (PyInt k :: 'a pyval) = Inl TypeError
   \<and> Interval_greater_than Concrete_subclass (PyInt k :: 'a pyval) = Inl TypeError
   \<and> Interval_greater_than_or_equal_to Concrete_subclass (PyInt k :: 'a pyval) = Inl TypeError"
  by (simp add: Interval_all_def Interval_less_than_def Interval_less_than_or_equal_to_def
      Interval_greater_than_def Interval_greater_than_or_equal_to_def Interval_init_def py_eq_iff)

text \<open>
  C3. The claim is that \<^verbatim>\<open>Interval.none()\<close> returns the canonical empty interval. The
  code calls \<^verbatim>\<open>cls(0, 0, closed=False)\<close>. On the class \<^verbatim>\<open>Interval\<close> the call raises
  \<^verbatim>\<open>TypeError\<close>, the class being abstract. On a concrete subclass it raises \<^verbatim>\<open>TypeError\<close>
  too: the literal \<^verbatim>\<open>0\<close> is not an instance of \<^verbatim>\<open>SupportsRichComparison\<close>. And the
  body of \<^verbatim>\<open>__init__\<close>, given a comparable zero \<open>z\<close> with the same flags, returns the
  closed point \<open>[z..z]\<close>, because \<^verbatim>\<open>lower_closed\<close> and \<^verbatim>\<open>upper_closed\<close> default to
  \<^verbatim>\<open>True\<close>; \<^verbatim>\<open>__nonzero__\<close> holds of it, so it is not empty either.
\<close>

theorem Interval_none_raises:
  "(Interval_none Interval_class :: error + 'a::linorder interval) = Inl TypeError
   \<and> (Interval_none Concrete_subclass :: error + 'a interval) = Inl TypeError
   \<and> Interval_init (Comparable (Val z)) (Comparable (Val (z::'a))) False True True
       = Inr \<lparr>lower_bound = Val z, lower_closed = True, upper_bound = Val z, upper_closed = True\<rparr>
   \<and> nonzero \<lparr>lower_bound = Val z, lower_closed = True, upper_bound = Val z, upper_closed = True\<rparr>"
  by (simp add: Interval_none_def Interval_init_def nonzero_def py_eq_iff py_lt_simps)

text \<open>
  C6. The claim is that a reversed pair of bounds is not rejected but swapped, so that
  \<^verbatim>\<open>Interval(5, 2, lower_closed=False)\<close> is \<open>[2..5)\<close>. The code rejects the call: it
  raises \<^verbatim>\<open>TypeError\<close>, the class being abstract, whether \<open>5\<close> and \<open>2\<close> are built-in ints
  or comparable domain values (the first two conjuncts). Nor does the body of
  \<^verbatim>\<open>__init__\<close> swap anything when a concrete subclass reaches it with comparable bounds
  \<open>5\<close> and \<open>2\<close>: the test \<^verbatim>\<open>upper_bound < lower_bound\<close> raises \<^verbatim>\<open>ValueError\<close> (the last two
  conjuncts). The docstring of the constructor documents the swap.
\<close>

theorem reversed_bounds_raise:
  "Interval_call Interval_class (PyInt 5 :: int pyval) (PyInt 2) True False True = Inl TypeError
   \<and> Interval_call Interval_class (Comparable (Val (5::int))) (Comparable (Val 2)) True False True
       = Inl TypeError
   \<and> Interval_call Concrete_subclass (Comparable (Val (5::int))) (Comparable (Val 2)) True False True
       = Inl ValueError
   \<and> Interval_init (Comparable (Val (5::int))) (Comparable (Val 2)) True False True
       = Inl ValueError"
  by (simp add: Interval_init_def py_lt_simps)

subsection \<open>Ordering\<close>

text \<open>
  C7, as stated, fails: the claim orders the interval with the open upper end after the
  one with the closed upper end. For \<open>[1..5)\<close> and \<open>[1..5]\<close> the code says that the
  open one comes before the closed one, and that the closed one does not come before the
  open one.
\<close>

theorem comes_before_open_upper_first:
  "comes_before
     \<lparr>lower_bound = Val (1::int), lower_closed = True, upper_bound = Val 5, upper_closed = False\<rparr>
     \<lparr>lower_bound = Val 1, lower_closed = True, upper_bound = Val 5, upper_closed = True\<rparr>
   \<and> \<not> comes_before
     \<lparr>lower_bound = Val (1::int), lower_closed = True, upper_bound = Val 5, upper_closed = True\<rparr>
     \<lparr>lower_bound = Val 1, lower_closed = True, upper_bound = Val 5, upper_closed = False\<rparr>"
  by (simp add: comes_before_def Interval_eq_iff py_lt_simps py_gt_simps)

text \<open>
  C7, amended. For two intervals whose lower bounds are the same domain value, whose
  lower closures are equal, whose upper bounds are the same domain value and whose
  upper closures differ, \<open>comes_before\<close> orders the interval with
  \<open>upper_closed = False\<close> before the one with \<open>upper_closed = True\<close>, and not the other
  way round. When all four fields of two intervals are equal, neither comes before the
  other.
\<close>

theorem comes_before_upper_closure_tie:
  "(lower_bound a = Val l \<and> lower_bound b = Val l \<and> lower_closed a = lower_closed b \<and>
    upper_bound a = Val u \<and> upper_bound b = Val u \<and> \<not> upper_closed a \<and> upper_closed b
      \<longrightarrow> comes_before a b \<and> \<not> comes_before b a)
   \<and> (lower_bound c = lower_bound d \<and> lower_closed c = lower_closed d \<and>
      upper_bound c = upper_bound d \<and> upper_closed c = upper_closed d
      \<longrightarrow> \<not> comes_before c d \<and> \<not> comes_before d c)"
  by (auto simp: comes_before_def Interval_eq_def py_eq_iff py_lt_simps py_gt_simps)

text \<open>
  The theorem at \<open>(2..7)\<close> and \<open>(2..7]\<close>, and at two copies of \<open>(2..7]\<close>.
\<close>

theorem comes_before_upper_closure_tie_witness:
  "comes_before
     \<lparr>lower_bound = Val (2::int), lower_closed = False, upper_bound = Val 7, upper_closed = False\<rparr>
     \<lparr>lower_bound = Val 2, lower_closed = False, upper_bound = Val 7, upper_closed = True\<rparr>
   \<and> \<not> comes_before
     \<lparr>lower_bound = Val (2::int), lower_closed = False, upper_bound = Val 7, upper_closed = True\<rparr>
     \<lparr>lower_bound = Val 2, lower_closed = False, upper_bound = Val 7, upper_closed = False\<rparr>
   \<and> \<not> comes_before
     \<lparr>lower_bound = Val (2::int), lower_closed = False, upper_bound = Val 7, upper_closed = True\<rparr>
     \<lparr>lower_bound = Val 2, lower_closed = False, upper_bound = Val 7, upper_closed = True\<rparr>"
  using comes_before_upper_closure_tie
    [of "\<lparr>lower_bound = Val (2::int), lower_closed = False, upper_bound = Val 7, upper_closed = False\<rparr>"
        2
        "\<lparr>lower_bound = Val (2::int), lower_closed = False, upper_bound = Val 7, upper_closed = True\<rparr>"
        7
        "\<lparr>lower_bound = Val (2::int), lower_closed = False, upper_bound = Val 7, upper_closed = True\<rparr>"
        "\<lparr>lower_bound = Val (2::int), lower_closed = False, upper_bound = Val 7, upper_closed = True\<rparr>"]
  by simp

subsection \<open>Join\<close>

lemma overlaps_not_TypeError: "overlaps a b \<noteq> Inl TypeError"
  by (simp add: overlaps_unfold)

lemma adjacent_to_not_TypeError: "adjacent_to a b \<noteq> Inl TypeError"
  by (simp add: adjacent_to_unfold)

lemma overlaps_or_adjacent_not_TypeError: "overlaps_or_adjacent a b \<noteq> Inl TypeError"
  using overlaps_not_TypeError[of a b] adjacent_to_not_TypeError[of a b]
  by (auto simp: overlaps_or_adjacent_def split: sum.splits bool.splits)

lemma join_TypeError_iff:
  "(join a b = Inl TypeError) = (overlaps_or_adjacent a b = Inr True)"
  using overlaps_or_adjacent_not_TypeError[of a b]
  by (auto simp: join_def split: sum.splits bool.splits prod.splits)

lemma overlaps_not_ArithmeticError: "overlaps a b \<noteq> Inl ArithmeticError"
  by (simp add: overlaps_unfold)

lemma adjacent_to_not_ArithmeticError: "adjacent_to a b \<noteq> Inl ArithmeticError"
  by (simp add: adjacent_to_unfold)

lemma join_ArithmeticError_iff:
  "(join a b = Inl ArithmeticError) = (overlaps_or_adjacent a b = Inr False)"
proof -
  have "overlaps_or_adjacent a b \<noteq> Inl ArithmeticError"
    using overlaps_not_ArithmeticError[of a b] adjacent_to_not_ArithmeticError[of a b]
    by (auto simp: overlaps_or_adjacent_def split: sum.splits bool.splits)
  then show ?thesis
    by (auto simp: join_def split: sum.splits bool.splits prod.splits)
qed

lemma join_never_returns: "join a b \<noteq> Inr r"
  by (auto simp: join_def split: sum.splits bool.splits prod.splits)

text \<open>
  C4. The claim is that \<open>join\<close> returns an interval whenever the operands overlap or are
  adjacent, and raises \<^verbatim>\<open>ArithmeticError\<close> otherwise. The code builds the result with the
  call \<^verbatim>\<open>Interval(lbound, ubound, upper_closed=uinc, lower_closed=linc)\<close>, on the abstract
  class \<^verbatim>\<open>Interval\<close>: the call raises \<^verbatim>\<open>TypeError\<close>. For \<open>[1..3]\<close> and \<open>[2..5]\<close>, two
  instances of a concrete subclass, \<open>overlaps\<close> returns true and \<open>join\<close> raises
  \<^verbatim>\<open>TypeError\<close>. So it does for every pair that overlaps or is adjacent, and \<open>join\<close>
  returns for no pair at all (the last two conjuncts). The docstring of \<^verbatim>\<open>join\<close> shows
  joins returning an interval.
\<close>

theorem join_raises_on_overlapping:
  "Interval_call Concrete_subclass (Comparable (Val (1::int))) (Comparable (Val 3)) True True True
       = Inr \<lparr>lower_bound = Val (1::int), lower_closed = True, upper_bound = Val 3, upper_closed = True\<rparr>
   \<and> Interval_call Concrete_subclass (Comparable (Val (2::int))) (Comparable (Val 5)) True True True
       = Inr \<lparr>lower_bound = Val (2::int), lower_closed = True, upper_bound = Val 5, upper_closed = True\<rparr>
   \<and> overlaps
        \<lparr>lower_bound = Val (1::int), lower_closed = True, upper_bound = Val 3, upper_closed = True\<rparr>
        \<lparr>lower_bound = Val (2::int), lower_closed = True, upper_bound = Val 5, upper_closed = True\<rparr>
       = Inr True
   \<and> join
        \<lparr>lower_bound = Val (1::int), lower_closed = True, upper_bound = Val 3, upper_closed = True\<rparr>
        \<lparr>lower_bound = Val (2::int), lower_closed = True, upper_bound = Val 5, upper_closed = True\<rparr>
       = Inl TypeError
   \<and> (join a b = Inl TypeError) = (overlaps_or_adjacent a b = Inr True)
   \<and> join a b \<noteq> Inr r"
proof -
  have at_the_example:
    "Interval_call Concrete_subclass (Comparable (Val (1::int))) (Comparable (Val 3)) True True True
       = Inr \<lparr>lower_bound = Val (1::int), lower_closed = True, upper_bound = Val 3, upper_closed = True\<rparr>
     \<and> Interval_call Concrete_subclass (Comparable (Val (2::int))) (Comparable (Val 5)) True True True
       = Inr \<lparr>lower_bound = Val (2::int), lower_closed = True, upper_bound = Val 5, upper_closed = True\<rparr>
     \<and> overlaps
        \<lparr>lower_bound = Val (1::int), lower_closed = True, upper_bound = Val 3, upper_closed = True\<rparr>
        \<lparr>lower_bound = Val (2::int), lower_closed = True, upper_bound = Val 5, upper_closed = True\<rparr>
       = Inr True
     \<and> join
        \<lparr>lower_bound = Val (1::int), lower_closed = True, upper_bound = Val 3, upper_closed = True\<rparr>
        \<lparr>lower_bound = Val (2::int), lower_closed = True, upper_bound = Val 5, upper_closed = True\<rparr>
       = Inl TypeError"
    by code_simp
  from at_the_example join_TypeError_iff[of a b] join_never_returns[of a b r]
  show ?thesis
    by blast
qed

section \<open>Properties of IntervalSet\<close>

subsection \<open>Canonical form\<close>

text \<open>
  C2. The claim is that after any sequence of successful insertions the stored intervals
  are sorted, pairwise non-overlapping, pairwise non-adjacent, and none of them is
  empty. The code breaks the last part. \<^verbatim>\<open>_add\<close> means to skip an empty interval
  (\<^verbatim>\<open>if r:\<close>, under the comment "Don't bother appending an empty Interval"), but the
  truth value of an Interval is always true in Python 3, where \<^verbatim>\<open>__nonzero__\<close> is not
  consulted. With \<open>e = (5..5)\<close>, an instance of a concrete subclass that
  \<^verbatim>\<open>__nonzero__\<close> tells to be empty, \<^verbatim>\<open>IntervalSet([e])\<close> succeeds and stores \<open>e\<close>.
\<close>

theorem empty_interval_stored:
  "Interval_call Concrete_subclass (Comparable (Val (5::int))) (Comparable (Val 5)) False False False
     = Inr \<lparr>lower_bound = Val (5::int), lower_closed = False, upper_bound = Val 5, upper_closed = False\<rparr>
   \<and> \<not> nonzero \<lparr>lower_bound = Val (5::int), lower_closed = False, upper_bound = Val 5, upper_closed = False\<rparr>
   \<and> IntervalSet_init []
     [Iv \<lparr>lower_bound = Val (5::int), lower_closed = False, upper_bound = Val 5, upper_closed = False\<rparr>]
     = (Inr 0,
        [[\<lparr>lower_bound = Val (5::int), lower_closed = False, upper_bound = Val 5, upper_closed = False\<rparr>]])"
  by code_simp

subsection \<open>Idempotence\<close>

text \<open>
  C5. The claim is that \<open>s | s == s\<close>, \<open>s & s == s\<close> and \<open>s - s == empty\<close> for every
  IntervalSet. The first law fails in the code for the set \<open>s\<close> that holds \<open>[2..5]\<close>, an
  instance of a concrete subclass: \<^verbatim>\<open>IntervalSet([[2..5]])\<close> succeeds (object 0 of the
  heap), and \<open>s | s\<close> raises \<^verbatim>\<open>TypeError\<close> instead of returning a set. \<^verbatim>\<open>__or__\<close> adds
  \<open>[2..5]\<close> to a copy of \<open>s\<close> that already holds it, \<^verbatim>\<open>_add\<close> finds that the two
  overlap and calls \<open>join\<close>, and \<open>join\<close> raises at its call of the abstract class.
\<close>

theorem union_not_idempotent:
  "Interval_call Concrete_subclass (Comparable (Val (2::int))) (Comparable (Val 5)) True True True
     = Inr \<lparr>lower_bound = Val (2::int), lower_closed = True, upper_bound = Val 5, upper_closed = True\<rparr>
   \<and> IntervalSet_init []
      [Iv \<lparr>lower_bound = Val (2::int), lower_closed = True, upper_bound = Val 5, upper_closed = True\<rparr>]
    = (Inr 0,
       [[\<lparr>lower_bound = Val (2::int), lower_closed = True, upper_bound = Val 5, upper_closed = True\<rparr>]])
   \<and> fst (IntervalSet_or
      [[\<lparr>lower_bound = Val (2::int), lower_closed = True, upper_bound = Val 5, upper_closed = True\<rparr>]]
      0 0)
    = Inl TypeError"
  by code_simp

subsection \<open>The set operations write to new objects only\<close>

lemma frame_refl: "n \<le> length h \<Longrightarrow> frame n h h"
  by (simp add: frame_def)

lemma frame_trans: "frame n h h1 \<Longrightarrow> frame n h1 h2 \<Longrightarrow> frame n h h2"
  by (simp add: frame_def)

lemma frame_update: "n \<le> length h \<Longrightarrow> n \<le> p \<Longrightarrow> frame n h (h[p := xs])"
  by (simp add: frame_def)

lemma frame_alloc: "n \<le> length h \<Longrightarrow> frame n h (h @ [xs])"
  by (simp add: frame_def)

lemma frame_nth: "frame n h h' \<Longrightarrow> p < n \<Longrightarrow> h' ! p = h ! p"
  by (metis frame_def nth_take)

lemma frame_and_then:
  assumes "frame n h (snd m)"
    and "\<And>r h1. m = (Inr r, h1) \<Longrightarrow> frame n h h1 \<Longrightarrow> frame n h1 (snd (f r h1))"
  shows "frame n h (snd (and_then m f))"
proof (cases m)
  case (Pair x h1)
  show ?thesis
  proof (cases x)
    case (Inl e)
    with Pair assms(1) show ?thesis by (simp add: and_then_def)
  next
    case (Inr r)
    with Pair assms(1) assms(2)[of r h1] show ?thesis
      by (auto simp: and_then_def intro: frame_trans)
  qed
qed

lemma frame_length: "frame n h h' \<Longrightarrow> n \<le> length h'"
  by (simp add: frame_def)

lemma add_frame: "n \<le> length h \<Longrightarrow> n \<le> self \<Longrightarrow> frame n h (snd (IntervalSet_add h self obj))"
  by (auto simp: IntervalSet_add_def frame_refl frame_update split: sum.splits prod.splits)

lemma add_all_frame:
  "n \<le> length h \<Longrightarrow> n \<le> self \<Longrightarrow> frame n h (snd (add_all h self xs))"
proof (induction xs arbitrary: h)
  case Nil
  then show ?case by (simp add: frame_refl)
next
  case (Cons x xs)
  show ?case
    unfolding add_all.simps
  proof (rule frame_and_then)
    show "frame n h (snd (IntervalSet_add h self x))"
      using Cons.prems by (rule add_frame)
  next
    fix r h1 assume "frame n h h1"
    then have "n \<le> length h1" by (rule frame_length)
    then show "frame n h1 (snd (add_all h1 self xs))"
      using Cons.prems(2) by (rule Cons.IH)
  qed
qed

lemma init_frame: "n \<le> length h \<Longrightarrow> frame n h (snd (IntervalSet_init h xs))"
proof -
  assume n: "n \<le> length h"
  have a: "frame n h (h @ [[]])" using n by (rule frame_alloc)
  have "frame n (h @ [[]]) (snd (add_all (h @ [[]]) (length h) xs))"
    using n by (intro add_all_frame) simp_all
  with a have b: "frame n h (snd (add_all (h @ [[]]) (length h) xs))"
    by (rule frame_trans)
  show ?thesis
    unfolding IntervalSet_init_def Let_def
    by (rule frame_and_then[OF b]) (simp add: frame_length frame_refl)
qed

lemma init_ref: "IntervalSet_init h xs = (Inr r, h') \<Longrightarrow> r = length h"
  by (auto simp: IntervalSet_init_def and_then_def Let_def split: sum.splits prod.splits)

lemma init_ref_ge:
  assumes "IntervalSet_init h xs = (Inr r, h')" "n \<le> length h"
  shows "n \<le> r"
  using init_ref[OF assms(1)] assms(2) by simp

lemma or_frame: "n \<le> length h \<Longrightarrow> frame n h (snd (IntervalSet_or h self other))"
  unfolding IntervalSet_or_def
  apply (rule frame_and_then)
   apply (erule init_frame)
  apply (rule frame_and_then)
   apply (rule add_all_frame)
    apply (erule frame_length)
   apply (erule init_ref_ge, assumption)
  apply (rule init_frame)
  apply (erule frame_length)
  done

lemma add_piece_frame:
  "n \<le> length h \<Longrightarrow> n \<le> p \<Longrightarrow> frame n h (snd (add_piece h p l u lc uc))"
  by (auto simp: add_piece_def frame_refl add_frame split: sum.splits)

lemma and_body_frame:
  "n \<le> length h \<Longrightarrow> n \<le> p \<Longrightarrow> frame n h (snd (and_body h p i j))"
  by (auto simp: and_body_def frame_refl add_frame add_piece_frame split: sum.splits bool.splits)

lemma and_inner_frame:
  "n \<le> length h \<Longrightarrow> n \<le> p \<Longrightarrow> frame n h (snd (and_inner h p is j))"
proof (induction "is" arbitrary: h)
  case Nil
  then show ?case by (simp add: frame_refl)
next
  case (Cons i "is")
  show ?case
    unfolding and_inner.simps
    by (rule frame_and_then) (auto intro: and_body_frame Cons.prems Cons.IH frame_length)
qed

lemma and_outer_frame:
  "n \<le> length h \<Longrightarrow> n \<le> p \<Longrightarrow> frame n h (snd (and_outer h p self js))"
proof (induction js arbitrary: h)
  case Nil
  then show ?case by (simp add: frame_refl)
next
  case (Cons j js)
  show ?case
    unfolding and_outer.simps
    by (rule frame_and_then) (auto intro: and_inner_frame Cons.prems Cons.IH frame_length)
qed

lemma and_frame: "n \<le> length h \<Longrightarrow> frame n h (snd (IntervalSet_and h self other))"
  unfolding IntervalSet_and_def
  apply (rule frame_and_then)
   apply (erule init_frame)
  apply (rule frame_and_then)
   apply (rule and_outer_frame)
    apply (erule frame_length)
   apply (erule init_ref_ge, assumption)
  apply (rule init_frame)
  apply (erule frame_length)
  done

lemma sub_body_frame:
  "n \<le> length h \<Longrightarrow> n \<le> p \<Longrightarrow> frame n h (snd (sub_body h p i j))"
  unfolding sub_body_def ne_None_def
  by (auto simp: frame_refl add_frame add_piece_frame split: sum.splits bool.splits
      intro!: frame_and_then dest: frame_length)

lemma sub_inner_frame:
  "n \<le> length h \<Longrightarrow> n \<le> p \<Longrightarrow> frame n h (snd (sub_inner h p is j))"
proof (induction "is" arbitrary: h)
  case Nil
  then show ?case by (simp add: frame_refl)
next
  case (Cons i "is")
  show ?case
    unfolding sub_inner.simps
    by (rule frame_and_then) (auto intro: sub_body_frame Cons.prems Cons.IH frame_length)
qed

lemma sub_outer_frame:
  "n \<le> length h \<Longrightarrow> frame n h (snd (sub_outer h p js))"
proof (induction js arbitrary: h p)
  case Nil
  then show ?case by (simp add: frame_refl)
next
  case (Cons j js)
  show ?case
    unfolding sub_outer.simps
    apply (rule frame_and_then)
     apply (rule init_frame[OF Cons.prems])
    apply (rule frame_and_then)
     apply (rule sub_inner_frame)
      apply (erule frame_length)
     apply (erule init_ref_ge, rule Cons.prems)
    apply (rule Cons.IH)
    apply (erule frame_length)
    done
qed

lemma sub_frame: "n \<le> length h \<Longrightarrow> frame n h (snd (IntervalSet_sub h self other))"
  unfolding IntervalSet_sub_def
  apply (rule frame_and_then)
   apply (erule init_frame)
  apply (rule frame_and_then)
   apply (rule sub_outer_frame)
   apply (erule frame_length)
  apply (rule init_frame)
  apply (erule frame_length)
  done

lemma xor_frame: "n \<le> length h \<Longrightarrow> frame n h (snd (IntervalSet_xor h self other))"
  unfolding IntervalSet_xor_def
  apply (rule frame_and_then)
   apply (erule or_frame)
  apply (rule frame_and_then)
   apply (rule and_frame)
   apply (erule frame_length)
  apply (rule sub_frame)
  apply (erule frame_length)
  done

text \<open>
  C10. The operators \<open>|\<close>, \<open>&\<close>, \<open>-\<close> and \<open>^\<close> never mutate an operand: for two
  IntervalSet objects \<open>self\<close> and \<open>other\<close> of the heap, the heap that the operation
  leaves holds for both the stored intervals they had before. This holds when the
  operation returns, and also when it raises.
\<close>

theorem binary_operations_keep_operands:
  assumes "self < length h" and "other < length h"
  shows "snd (IntervalSet_or h self other) ! self = h ! self
       \<and> snd (IntervalSet_or h self other) ! other = h ! other
       \<and> snd (IntervalSet_and h self other) ! self = h ! self
       \<and> snd (IntervalSet_and h self other) ! other = h ! other
       \<and> snd (IntervalSet_sub h self other) ! self = h ! self
       \<and> snd (IntervalSet_sub h self other) ! other = h ! other
       \<and> snd (IntervalSet_xor h self other) ! self = h ! self
       \<and> snd (IntervalSet_xor h self other) ! other = h ! other"
  using assms
    frame_nth[OF or_frame[OF order_refl, of h self other]]
    frame_nth[OF and_frame[OF order_refl, of h self other]]
    frame_nth[OF sub_frame[OF order_refl, of h self other]]
    frame_nth[OF xor_frame[OF order_refl, of h self other]]
  by simp

text \<open>
  The theorem at the sets \<open>{[1..2]}\<close> (object 0) and \<open>{[4..5]}\<close> (object 1), whose
  intervals are instances of a concrete subclass and neither overlap nor are adjacent.
  The four operations return on them: the results are the new objects 3, 3, 4 and 7.
\<close>

theorem binary_operations_keep_operands_witness:
  "let s = [\<lparr>lower_bound = Val (1::int), lower_closed = True, upper_bound = Val 2, upper_closed = True\<rparr>];
       t = [\<lparr>lower_bound = Val (4::int), lower_closed = True, upper_bound = Val 5, upper_closed = True\<rparr>];
       h = [s, t]
   in fst (IntervalSet_or h 0 1) = Inr 3
    \<and> fst (IntervalSet_and h 0 1) = Inr 3
    \<and> fst (IntervalSet_sub h 0 1) = Inr 4
    \<and> fst (IntervalSet_xor h 0 1) = Inr 7
    \<and> snd (IntervalSet_or h 0 1) ! 0 = s \<and> snd (IntervalSet_or h 0 1) ! 1 = t
    \<and> snd (IntervalSet_and h 0 1) ! 0 = s \<and> snd (IntervalSet_and h 0 1) ! 1 = t
    \<and> snd (IntervalSet_sub h 0 1) ! 0 = s \<and> snd (IntervalSet_sub h 0 1) ! 1 = t
    \<and> snd (IntervalSet_xor h 0 1) ! 0 = s \<and> snd (IntervalSet_xor h 0 1) ! 1 = t"
proof -
  let ?h = "[[\<lparr>lower_bound = Val (1::int), lower_closed = True, upper_bound = Val 2, upper_closed = True\<rparr>],
      [\<lparr>lower_bound = Val (4::int), lower_closed = True, upper_bound = Val 5, upper_closed = True\<rparr>]]"
  have valid: "0 < length ?h" "1 < length ?h"
    by simp_all
  have returns:
    "fst (IntervalSet_or ?h 0 1) = Inr 3" "fst (IntervalSet_and ?h 0 1) = Inr 3"
    "fst (IntervalSet_sub ?h 0 1) = Inr 4" "fst (IntervalSet_xor ?h 0 1) = Inr 7"
    by code_simp+
  from binary_operations_keep_operands[OF valid] returns show ?thesis
    by (simp add: Let_def)
qed

subsection \<open>Removal\<close>

lemma Interval_init_not_KeyError: "Interval_init l u c lc uc \<noteq> Inl KeyError"
  by (auto simp: Interval_init_def Let_def split: pyval.splits)

lemma Interval_call_not_KeyError: "Interval_call cls l u c lc uc \<noteq> Inl KeyError"
  by (cases cls) (simp_all add: Interval_init_not_KeyError)

lemma Interval_equal_to_not_KeyError: "Interval_equal_to cls v \<noteq> Inl KeyError"
  by (simp add: Interval_equal_to_def Interval_call_not_KeyError)

lemma overlaps_not_KeyError: "overlaps a b \<noteq> Inl KeyError"
  by (simp add: overlaps_unfold)

lemma adjacent_to_not_KeyError: "adjacent_to a b \<noteq> Inl KeyError"
  by (simp add: adjacent_to_unfold)

lemma overlaps_or_adjacent_not_KeyError: "overlaps_or_adjacent a b \<noteq> Inl KeyError"
  using overlaps_not_KeyError[of a b] adjacent_to_not_KeyError[of a b]
  by (auto simp: overlaps_or_adjacent_def split: sum.splits bool.splits)

lemma join_not_KeyError: "join a b \<noteq> Inl KeyError"
  using overlaps_or_adjacent_not_KeyError[of a b]
  by (auto simp: join_def Let_def split: sum.splits bool.splits prod.splits)

lemma merge_loop_not_KeyError: "merge_loop r acc xs \<noteq> Inl KeyError"
proof (induction xs arbitrary: r acc)
  case Nil
  show ?case by simp
next
  case (Cons i xs)
  show ?case
    using overlaps_or_adjacent_not_KeyError[of i r] join_not_KeyError[of r i] Cons.IH
    by (auto split: sum.splits bool.splits)
qed

lemma add_not_KeyError: "fst (IntervalSet_add h self obj) \<noteq> Inl KeyError"
  by (auto simp: IntervalSet_add_def merge_loop_not_KeyError Interval_equal_to_not_KeyError
      split: sum.splits prod.splits item.splits)

lemma and_then_not_KeyError:
  assumes "fst m \<noteq> Inl KeyError" and "\<And>r h. fst (f r h) \<noteq> Inl KeyError"
  shows "fst (and_then m f) \<noteq> Inl KeyError"
  using assms by (auto simp: and_then_def split: prod.splits sum.splits)

lemma add_all_not_KeyError: "fst (add_all h self xs) \<noteq> Inl KeyError"
proof (induction xs arbitrary: h)
  case Nil
  show ?case by simp
next
  case (Cons x xs)
  show ?case
    unfolding add_all.simps
    by (rule and_then_not_KeyError) (simp_all add: add_not_KeyError Cons.IH)
qed

lemma init_not_KeyError: "fst (IntervalSet_init h xs) \<noteq> Inl KeyError"
  unfolding IntervalSet_init_def Let_def
  by (rule and_then_not_KeyError) (simp_all add: add_all_not_KeyError)

lemma add_piece_not_KeyError: "fst (add_piece h p l u lc uc) \<noteq> Inl KeyError"
  by (auto simp: add_piece_def add_not_KeyError split: sum.splits)

lemma two_pieces_not_KeyError:
  "fst (and_then (add_piece h p l u lc uc) (\<lambda>_ h'. add_piece h' p l' u' lc' uc')) \<noteq> Inl KeyError"
  by (intro and_then_not_KeyError add_piece_not_KeyError)

lemma sub_body_not_KeyError: "fst (sub_body h p i j) \<noteq> Inl KeyError"
  unfolding sub_body_def ne_None_def
  using overlaps_not_KeyError[of i j]
  by (auto simp: two_pieces_not_KeyError add_piece_not_KeyError add_not_KeyError
      split: sum.splits bool.splits)

lemma sub_inner_not_KeyError: "fst (sub_inner h p is j) \<noteq> Inl KeyError"
proof (induction "is" arbitrary: h)
  case Nil
  show ?case by simp
next
  case (Cons i "is")
  show ?case
    unfolding sub_inner.simps
    by (rule and_then_not_KeyError) (simp_all add: sub_body_not_KeyError Cons.IH)
qed

lemma sub_outer_not_KeyError: "fst (sub_outer h p js) \<noteq> Inl KeyError"
proof (induction js arbitrary: h p)
  case Nil
  show ?case by simp
next
  case (Cons j js)
  show ?case
    unfolding sub_outer.simps
    by (intro and_then_not_KeyError init_not_KeyError sub_inner_not_KeyError Cons.IH)
qed

lemma sub_not_KeyError: "fst (IntervalSet_sub h self other) \<noteq> Inl KeyError"
  unfolding IntervalSet_sub_def
  by (intro and_then_not_KeyError init_not_KeyError sub_outer_not_KeyError)

lemma IntervalSet_discard_not_KeyError: "fst (IntervalSet_discard h self obj) \<noteq> Inl KeyError"
  unfolding IntervalSet_discard_def
  by (intro and_then_not_KeyError init_not_KeyError sub_not_KeyError) simp

lemma contains_loop_Iv: "contains_loop rs (Iv x) = Inr (\<exists>r\<in>set rs. inside r x)"
  by (induction rs) (auto simp: Interval_contains_def split: bool.splits)

lemma contains_loop_Disc:
  "contains_loop rs (Disc v) = (if rs = [] then Inr False else Inl TypeError)"
  by (cases rs) (simp_all add: Interval_contains_def Interval_equal_to_abstract)

lemma contains_loop_not_KeyError: "contains_loop rs obj \<noteq> Inl KeyError"
  by (induction rs)
     (auto simp: Interval_contains_def Interval_equal_to_not_KeyError split: sum.splits bool.splits item.splits)

text \<open>
  What does hold of \<^verbatim>\<open>remove\<close>: it raises \<^verbatim>\<open>KeyError\<close> exactly when the membership
  test \<^verbatim>\<open>obj in self\<close> returns false, and it leaves the heap as it was when it does.
\<close>

lemma remove_KeyError_iff_membership_False:
  "(fst (IntervalSet_remove h self obj) = Inl KeyError)
      = (IntervalSet_contains h self obj = Inr False)"
  "fst (IntervalSet_remove h self obj) = Inl KeyError \<Longrightarrow> snd (IntervalSet_remove h self obj) = h"
  using IntervalSet_discard_not_KeyError[of h self obj]
    contains_loop_not_KeyError[of "h ! self" obj]
  by (auto simp: IntervalSet_remove_def IntervalSet_contains_def
      split: sum.splits bool.splits)

text \<open>
  C9. The claim is that \<^verbatim>\<open>IntervalSet.remove(obj)\<close> raises \<^verbatim>\<open>KeyError\<close> if and only if
  \<open>obj\<close> is not fully covered by the set. The code breaks it in both directions. Let
  \<open>x = (...5]\<close>, an instance of a concrete subclass, and \<open>s\<close> the set that
  \<^verbatim>\<open>IntervalSet([x])\<close> returns (object 0 of the heap), which stores \<open>x\<close>.
  \<^verbatim>\<open>s.remove(x)\<close> raises \<^verbatim>\<open>KeyError\<close> although \<open>x\<close> is the very interval that \<open>s\<close>
  holds: \<^verbatim>\<open>x in x\<close> compares the two lower bounds with \<^verbatim>\<open>Smallest.__lt__\<close>, which
  answers true, and so takes \<open>x\<close> to start below itself. And \<^verbatim>\<open>s.remove(7)\<close>, for the
  domain value 7 that \<open>s\<close> does not cover, raises \<^verbatim>\<open>TypeError\<close> and not \<^verbatim>\<open>KeyError\<close>: the
  membership test wraps a discrete value by \<^verbatim>\<open>Interval.equal_to\<close>, a call of the
  abstract class. The docstring of \<^verbatim>\<open>remove\<close> promises \<^verbatim>\<open>KeyError\<close> when the object is
  not in the set, and shows the removal of a discrete value.
\<close>

theorem remove_breaks_on_stored_interval:
  "Interval_call Concrete_subclass (Comparable Smallest) (Comparable (Val (5::int))) False False True
     = Inr \<lparr>lower_bound = Smallest, lower_closed = False, upper_bound = Val (5::int), upper_closed = True\<rparr>
   \<and> IntervalSet_init []
     [Iv \<lparr>lower_bound = Smallest, lower_closed = False, upper_bound = Val (5::int), upper_closed = True\<rparr>]
     = (Inr 0,
        [[\<lparr>lower_bound = Smallest, lower_closed = False, upper_bound = Val (5::int), upper_closed = True\<rparr>]])
   \<and> IntervalSet_remove
        [[\<lparr>lower_bound = Smallest, lower_closed = False, upper_bound = Val (5::int), upper_closed = True\<rparr>]]
        0 (Iv \<lparr>lower_bound = Smallest, lower_closed = False, upper_bound = Val (5::int), upper_closed = True\<rparr>)
     = (Inl KeyError,
        [[\<lparr>lower_bound = Smallest, lower_closed = False, upper_bound = Val (5::int), upper_closed = True\<rparr>]])
   \<and> fst (IntervalSet_remove
        [[\<lparr>lower_bound = Smallest, lower_closed = False, upper_bound = Val (5::int), upper_closed = True\<rparr>]]
        0 (Disc (Comparable (Val 7))))
     = Inl TypeError"
  by code_simp

end
